theory Spec2Isabelle
  imports Main "HOL-Library.Word"
begin

unbundle bit_operations_syntax

section \<open>The OpenBSD router of \<^verbatim>\<open>wgengine/router/router_openbsd.go\<close>\<close>

text \<open>
  The router keeps the last local address and route set it was asked to apply
  (\<^verbatim>\<open>openbsdRouter\<close>), converges the interface by running \<^verbatim>\<open>ifconfig\<close> and
  \<^verbatim>\<open>route\<close> commands (\<^verbatim>\<open>Set\<close>), and takes over \<^verbatim>\<open>/etc/resolv.conf\<close>
  (\<^verbatim>\<open>replaceResolvConf\<close>, \<^verbatim>\<open>restoreResolvConf\<close>).

  The embedding is shallow. The router's fields are a record, passed in and returned.
  Everything outside the Go process is explicit:
  \<^item> the file system is a map from paths to nodes, passed in and returned;
  \<^item> the commands the router runs are collected in the order they are issued;
  \<^item> what the outside world decides (whether a command fails, whether a file operation is
    refused, the random part of a temporary file's name, the order in which Go visits
    the keys of a map, and two text conversions of Go's library) is read from a record
    \<open>env\<close>, so every theorem that quantifies over \<open>env\<close> holds whatever it decides.
  Logging (\<^verbatim>\<open>r.logf\<close>) has no effect on results or state and is left out.
\<close>

subsection \<open>Addresses and prefixes (\<^verbatim>\<open>wgcfg.IP\<close>, \<^verbatim>\<open>wgcfg.CIDR\<close>, Go's \<^verbatim>\<open>net\<close>)\<close>

text \<open>
  \<^verbatim>\<open>wgcfg.IP\<close> is \<^verbatim>\<open>struct { Addr [16]byte }\<close>: always the 16-byte form, an IPv4
  address stored as IPv4-in-IPv6 (\<^verbatim>\<open>::ffff:a.b.c.d\<close>). It is a 128-bit word here,
  \<^verbatim>\<open>Addr[0]\<close> the most significant byte. \<^verbatim>\<open>wgcfg.CIDR\<close> is
  \<^verbatim>\<open>struct { IP IP; Mask uint8 }\<close>.
\<close>

type_synonym wgcfg_IP = "128 word"

record CIDR =
  IP :: wgcfg_IP
  Mask :: "8 word"

text \<open>\<^verbatim>\<open>wgcfg.CIDR{}\<close>, the zero value the router is constructed with.\<close>

definition zero_CIDR :: CIDR where
  "zero_CIDR = \<lparr>IP = 0, Mask = 0\<rparr>"

text \<open>\<^verbatim>\<open>IP.Is4\<close>: bytes 0 to 9 are zero and bytes 10 and 11 are \<^verbatim>\<open>0xff\<close>.\<close>

definition Is4 :: "wgcfg_IP \<Rightarrow> bool" where
  "Is4 a = (drop_bit 32 a = 0xFFFF)"

text \<open>
  Go's \<^verbatim>\<open>net.IP\<close> and \<^verbatim>\<open>net.IPMask\<close> are byte slices; the ones that arise here are
  \<^verbatim>\<open>nil\<close>, 4 bytes long or 16 bytes long.
\<close>

datatype net_IP = nil_IP | IP4 "32 word" | IP16 "128 word"

datatype net_IPMask = nil_IPMask | Mask4 "32 word" | Mask16 "128 word"

text \<open>
  \<^verbatim>\<open>net.CIDRMask(ones, bits)\<close>: \<open>ones\<close> one bits followed by zeros, \<open>bits\<close> bits in
  all; \<^verbatim>\<open>nil\<close> when \<open>bits\<close> is neither 32 nor 128 or \<open>ones\<close> is out of range. (\<open>ones\<close>
  comes from a \<^verbatim>\<open>uint8\<close> here, so it is never negative.)
\<close>

definition CIDRMask :: "nat \<Rightarrow> nat \<Rightarrow> net_IPMask" where
  "CIDRMask ones bits =
     (if bits \<noteq> 32 \<and> bits \<noteq> 128 then nil_IPMask
      else if bits < ones then nil_IPMask
      else if bits = 32 then Mask4 (NOT (mask (32 - ones)))
      else Mask16 (NOT (mask (128 - ones))))"

text \<open>
  \<^verbatim>\<open>net.IP.Mask\<close>: a 16-byte mask whose first 12 bytes are \<^verbatim>\<open>0xff\<close> is cut to its
  last 4 bytes for a 4-byte address; a 16-byte IPv4-in-IPv6 address is cut to its last 4
  bytes for a 4-byte mask; then the lengths must agree, and the result is the bytewise
  \<^verbatim>\<open>&\<close>. Every other combination is \<^verbatim>\<open>nil\<close>.
\<close>

fun IP_Mask :: "net_IP \<Rightarrow> net_IPMask \<Rightarrow> net_IP" where
  "IP_Mask (IP4 a) (Mask16 m) =
     (if drop_bit 32 m = mask 96 then IP4 (a AND ucast m) else nil_IP)"
| "IP_Mask (IP16 a) (Mask4 m) =
     (if Is4 a then IP4 (ucast a AND m) else nil_IP)"
| "IP_Mask (IP4 a) (Mask4 m) = IP4 (a AND m)"
| "IP_Mask (IP16 a) (Mask16 m) = IP16 (a AND m)"
| "IP_Mask _ _ = nil_IP"

text \<open>
  \<^verbatim>\<open>CIDR.IPNet\<close>: the address in its 16-byte form and
  \<^verbatim>\<open>net.CIDRMask(int(r.Mask), bits)\<close>, where \<open>bits\<close> is 32 for an IPv4 address and 128
  otherwise.
\<close>

definition IPNet :: "CIDR \<Rightarrow> net_IP \<times> net_IPMask" where
  "IPNet r = (let bits = (if Is4 (IP r) then 32 else 128)
              in (IP16 (IP r), CIDRMask (unat (Mask r)) bits))"

subsection \<open>Errors\<close>

datatype errno = ENOENT | EINVAL | EEXIST | ELOOP | EACCES

text \<open>
  A Go \<^verbatim>\<open>error\<close>: a failed system call (\<^verbatim>\<open>*os.PathError\<close>, \<^verbatim>\<open>*os.LinkError\<close>), a
  command that exited with a status other than zero (\<^verbatim>\<open>*exec.ExitError\<close>), a fixed
  message (\<^verbatim>\<open>errors.New\<close>, \<^verbatim>\<open>fmt.Errorf\<close> without an error operand), and
  \<^verbatim>\<open>fmt.Errorf(prefix + "%v", err)\<close>.
\<close>

datatype error =
    PathError errno
  | ExitError nat
  | ErrorString string
  | Errorf string error

text \<open>\<^verbatim>\<open>os.IsNotExist\<close> looks at the system call's error only; it does not unwrap.\<close>

fun IsNotExist :: "error \<Rightarrow> bool" where
  "IsNotExist (PathError e) = (e = ENOENT)"
| "IsNotExist _ = False"

subsection \<open>The file system\<close>

text \<open>
  A path holds a regular file with its content, a symbolic link with its target, or
  nothing. Paths are compared as strings (no \<^verbatim>\<open>.\<close>, \<^verbatim>\<open>..\<close> or doubled slashes), and
  directories are not nodes of their own: a failure that a directory, a permission, a
  file flag or a full disk would cause is a refusal decided by \<open>fault\<close> below.
\<close>

type_synonym path = string

datatype node = File string | Symlink path

type_synonym fs = "path \<Rightarrow> node option"

text \<open>The file operations the router uses, with their arguments.\<close>

datatype fsop =
    OpStat path
  | OpReadlink path
  | OpReadFile path
  | OpTempFile path
  | OpWriteFile path
  | OpRename path path
  | OpRemove path
  | OpSymlink path path

subsection \<open>The outside world\<close>

type_synonym argv = "string list"

text \<open>
  \<^item> \<open>run\<close>: the outcome of \<^verbatim>\<open>cmd(args...).CombinedOutput()\<close>, given the commands
    this call has issued before: \<open>None\<close> for success. The output text is only logged.
  \<^item> \<open>range_order\<close>: the order in which a \<^verbatim>\<open>for ... range\<close> loop visits the keys of
    a map; Go leaves it unspecified.
  \<^item> \<open>fault\<close>: whether the system refuses a file operation (with \<^verbatim>\<open>EACCES\<close>) for a
    reason outside the model.
  \<^item> \<open>temp_random\<close>: the random part \<^verbatim>\<open>ioutil.TempFile\<close> puts in place of the
    \<^verbatim>\<open>*\<close> of its pattern.
  \<^item> \<open>ip6_text\<close>: \<^verbatim>\<open>net.IP.String\<close> on a 16-byte address that is not
    IPv4-in-IPv6 (the colon-separated text).
  \<^item> \<open>printf0\<close>: the text \<^verbatim>\<open>fmt.Fprintf\<close> writes for a format string without
    operands (the string itself when it holds no \<^verbatim>\<open>%\<close>).
\<close>

record env =
  run :: "argv list \<Rightarrow> argv \<Rightarrow> error option"
  range_order :: "CIDR set \<Rightarrow> CIDR list"
  fault :: "fsop \<Rightarrow> bool"
  temp_random :: string
  ip6_text :: "128 word \<Rightarrow> string"
  printf0 :: "string \<Rightarrow> string"

subsection \<open>Text of addresses and prefixes\<close>

text \<open>A byte in decimal, as Go prints a \<^verbatim>\<open>uint8\<close> with \<^verbatim>\<open>%d\<close> and an octet of an
  IPv4 address.\<close>

definition digit :: "nat \<Rightarrow> char" where
  "digit n = ''0123456789'' ! (n mod 10)"

definition decimal8 :: "8 word \<Rightarrow> string" where
  "decimal8 b =
     (let n = unat b in
      if n < 10 then [digit n]
      else if n < 100 then [digit (n div 10), digit n]
      else [digit (n div 100), digit (n div 10), digit n])"

definition dotted :: "32 word \<Rightarrow> string" where
  "dotted a =
     decimal8 (ucast (drop_bit 24 a)) @ ''.'' @ decimal8 (ucast (drop_bit 16 a)) @ ''.'' @
     decimal8 (ucast (drop_bit 8 a)) @ ''.'' @ decimal8 (ucast a)"

text \<open>\<^verbatim>\<open>net.IP.String\<close>, which \<^verbatim>\<open>%v\<close> and \<^verbatim>\<open>%s\<close> call.\<close>

fun net_IP_String :: "env \<Rightarrow> net_IP \<Rightarrow> string" where
  "net_IP_String env nil_IP = ''<nil>''"
| "net_IP_String env (IP4 a) = dotted a"
| "net_IP_String env (IP16 a) = (if Is4 a then dotted (ucast a) else ip6_text env a)"

text \<open>\<^verbatim>\<open>wgcfg.IP.String\<close> is \<^verbatim>\<open>net.IP(ip.Addr[:]).String()\<close>;
  \<^verbatim>\<open>wgcfg.CIDR.String\<close> is \<^verbatim>\<open>fmt.Sprintf("%s/%d", r.IP, r.Mask)\<close>.\<close>

definition IP_String :: "env \<Rightarrow> wgcfg_IP \<Rightarrow> string" where
  "IP_String env a = net_IP_String env (IP16 a)"

definition CIDR_String :: "env \<Rightarrow> CIDR \<Rightarrow> string" where
  "CIDR_String env r = IP_String env (IP r) @ ''/'' @ decimal8 (Mask r)"

subsection \<open>File operations\<close>

text \<open>
  The target of a symbolic link is resolved from the link's directory unless it starts
  with a slash. The kernel follows at most \<open>MAXSYMLINKS\<close> links (32 on OpenBSD) and
  then gives up with \<^verbatim>\<open>ELOOP\<close>.
\<close>

definition dirname :: "path \<Rightarrow> path" where
  "dirname p = rev (dropWhile (\<lambda>c. c \<noteq> CHR ''/'') (rev p))"

definition target_path :: "path \<Rightarrow> path \<Rightarrow> path" where
  "target_path link t = (if t \<noteq> [] \<and> hd t = CHR ''/'' then t else dirname link @ t)"

definition MAXSYMLINKS :: nat where
  "MAXSYMLINKS = 32"

fun follow :: "nat \<Rightarrow> fs \<Rightarrow> path \<Rightarrow> error + node" where
  "follow 0 disk p = Inl (PathError ELOOP)"
| "follow (Suc n) disk p =
     (case disk p of
        None \<Rightarrow> Inl (PathError ENOENT)
      | Some (File c) \<Rightarrow> Inr (File c)
      | Some (Symlink t) \<Rightarrow> follow n disk (target_path p t))"

text \<open>\<^verbatim>\<open>os.Stat\<close> follows symbolic links (\<^verbatim>\<open>os.Lstat\<close> would not).\<close>

definition os_Stat :: "env \<Rightarrow> fs \<Rightarrow> path \<Rightarrow> error + node" where
  "os_Stat env disk p =
     (if fault env (OpStat p) then Inl (PathError EACCES)
      else follow (Suc MAXSYMLINKS) disk p)"

text \<open>\<^verbatim>\<open>os.Readlink\<close>: the target of a symbolic link; \<^verbatim>\<open>EINVAL\<close> for a regular
  file.\<close>

definition os_Readlink :: "env \<Rightarrow> fs \<Rightarrow> path \<Rightarrow> error + path" where
  "os_Readlink env disk p =
     (if fault env (OpReadlink p) then Inl (PathError EACCES)
      else case disk p of
        None \<Rightarrow> Inl (PathError ENOENT)
      | Some (File c) \<Rightarrow> Inl (PathError EINVAL)
      | Some (Symlink t) \<Rightarrow> Inr t)"

text \<open>\<^verbatim>\<open>ioutil.ReadFile\<close> opens the path, following symbolic links.\<close>

definition ioutil_ReadFile :: "env \<Rightarrow> fs \<Rightarrow> path \<Rightarrow> error + string" where
  "ioutil_ReadFile env disk p =
     (if fault env (OpReadFile p) then Inl (PathError EACCES)
      else case follow (Suc MAXSYMLINKS) disk p of
        Inl e \<Rightarrow> Inl e
      | Inr (File c) \<Rightarrow> Inr c
      | Inr (Symlink t) \<Rightarrow> Inl (PathError ELOOP))"

text \<open>
  The operations that change the file system return the error, if any, and the file
  system they leave. \<^verbatim>\<open>os.Remove\<close>, \<^verbatim>\<open>os.Symlink\<close> and \<^verbatim>\<open>os.Rename\<close> act on the
  path itself, not on what a link at the path points to.
\<close>

definition os_Remove :: "env \<Rightarrow> fs \<Rightarrow> path \<Rightarrow> error option \<times> fs" where
  "os_Remove env disk p =
     (if fault env (OpRemove p) then (Some (PathError EACCES), disk)
      else if disk p = None then (Some (PathError ENOENT), disk)
      else (None, disk(p := None)))"

definition os_Symlink :: "env \<Rightarrow> fs \<Rightarrow> path \<Rightarrow> path \<Rightarrow> error option \<times> fs" where
  "os_Symlink env disk oldname newname =
     (if fault env (OpSymlink oldname newname) then (Some (PathError EACCES), disk)
      else if disk newname \<noteq> None then (Some (PathError EEXIST), disk)
      else (None, disk(newname \<mapsto> Symlink oldname)))"

definition os_Rename :: "env \<Rightarrow> fs \<Rightarrow> path \<Rightarrow> path \<Rightarrow> error option \<times> fs" where
  "os_Rename env disk oldpath newpath =
     (if fault env (OpRename oldpath newpath) then (Some (PathError EACCES), disk)
      else if disk oldpath = None then (Some (PathError ENOENT), disk)
      else if oldpath = newpath then (None, disk)
      else (None, disk(newpath := disk oldpath, oldpath := None)))"

text \<open>
  \<^verbatim>\<open>ioutil.TempFile(dir, pattern)\<close> creates a new empty file named \<open>dir\<close>, a slash, and
  the pattern with its \<^verbatim>\<open>*\<close> replaced by a random string (the caller's pattern ends
  with the \<^verbatim>\<open>*\<close>, so \<open>prefix\<close> is the pattern without it). Go tries other random
  strings when the name is taken; \<open>temp_random\<close> is the one it ends with, and a name
  that is still taken is the error Go gives after its last try.
\<close>

definition ioutil_TempFile :: "env \<Rightarrow> fs \<Rightarrow> path \<Rightarrow> string \<Rightarrow> error + (path \<times> fs)" where
  "ioutil_TempFile env disk dir prefix =
     (let name = dir @ ''/'' @ prefix @ temp_random env in
      if fault env (OpTempFile name) then Inl (PathError EACCES)
      else if disk name \<noteq> None then Inl (PathError EEXIST)
      else Inr (name, disk(name \<mapsto> File [])))"

text \<open>
  Modelled from the spec: \<^verbatim>\<open>atomicfile.WriteFile\<close> (package
  \<^verbatim>\<open>tailscale.com/atomicfile\<close>) is not among the sources. The spec says the content
  is written "via a temp-file-plus-atomic-rename sequence ... so no reader ever observes
  a partial write": the path holds the new content as a regular file, or the call fails
  and the path is as before.
\<close>

definition atomicfile_WriteFile :: "env \<Rightarrow> fs \<Rightarrow> path \<Rightarrow> string \<Rightarrow> error option \<times> fs" where
  "atomicfile_WriteFile env disk filename data =
     (if fault env (OpWriteFile filename) then (Some (PathError EACCES), disk)
      else (None, disk(filename \<mapsto> File data)))"

subsection \<open>Taking over and restoring \<^verbatim>\<open>/etc/resolv.conf\<close>\<close>

definition tsConf :: path where
  "tsConf = ''/etc/resolv.tailscale.conf''"

definition backupConf :: path where
  "backupConf = ''/etc/resolv.pre-tailscale-backup.conf''"

definition resolvConf :: path where
  "resolvConf = ''/etc/resolv.conf''"

text \<open>
  \<^verbatim>\<open>restoreResolvConf\<close>, statement by statement: \<^verbatim>\<open>os.Stat(backupConf)\<close>;
  \<^verbatim>\<open>os.Readlink(resolvConf)\<close>; \<^verbatim>\<open>os.Rename(backupConf, resolvConf)\<close>;
  \<^verbatim>\<open>os.Remove(tsConf)\<close>, whose error is dropped.
\<close>

definition restoreResolvConf :: "env \<Rightarrow> fs \<Rightarrow> error option \<times> fs" where
  "restoreResolvConf env disk =
     (case os_Stat env disk backupConf of
        Inl e \<Rightarrow> if IsNotExist e then (None, disk) else (Some e, disk)
      | Inr info \<Rightarrow>
          (case os_Readlink env disk resolvConf of
             Inl e \<Rightarrow> (Some e, disk)
           | Inr ln \<Rightarrow>
               if ln \<noteq> tsConf
               then (Some (ErrorString (''resolv.conf is not a symlink to '' @ tsConf)), disk)
               else (case os_Rename env disk backupConf resolvConf of
                       (Some e, disk1) \<Rightarrow> (Some e, disk1)
                     | (None, disk1) \<Rightarrow> (None, snd (os_Remove env disk1 tsConf)))))"

text \<open>The content of the managed file: two comment lines and an empty line, one
  \<^verbatim>\<open>nameserver\<close> line per server, and a \<^verbatim>\<open>search\<close> line when there are domains (the
  joined domains are part of the format string there).\<close>

fun join :: "string \<Rightarrow> string list \<Rightarrow> string" where
  "join sep [] = []"
| "join sep [x] = x"
| "join sep (x # y # ys) = x @ sep @ join sep (y # ys)"

definition managed_content :: "env \<Rightarrow> wgcfg_IP list \<Rightarrow> string list \<Rightarrow> string" where
  "managed_content env servers domains =
     ''# resolv.conf(5) file generated by tailscale'' @ [CHR 0x0A] @
     ''# DO NOT EDIT THIS FILE BY HAND -- CHANGES WILL BE OVERWRITTEN'' @ [CHR 0x0A, CHR 0x0A] @
     concat (map (\<lambda>ns. ''nameserver '' @ IP_String env ns @ [CHR 0x0A]) servers) @
     (if domains \<noteq> [] then printf0 env (''search '' @ join '' '' domains @ [CHR 0x0A]) else [])"

text \<open>
  The last two statements of \<^verbatim>\<open>replaceResolvConf\<close>: \<^verbatim>\<open>os.Remove(resolvConf)\<close>, whose
  error is dropped, and \<^verbatim>\<open>os.Symlink(tsConf, resolvConf)\<close>, after which both branches
  of the source return \<^verbatim>\<open>nil\<close>.
\<close>

definition link_resolvConf :: "env \<Rightarrow> fs \<Rightarrow> error option \<times> fs" where
  "link_resolvConf env disk =
     (let disk1 = snd (os_Remove env disk resolvConf) in
      case os_Symlink env disk1 tsConf resolvConf of
        (Some e, disk2) \<Rightarrow> (None, disk2)
      | (None, disk2) \<Rightarrow> (None, disk2))"

text \<open>
  \<^verbatim>\<open>replaceResolvConf\<close>. \<^verbatim>\<open>filepath.Dir(tsConf)\<close> is \<^verbatim>\<open>/etc\<close> and
  \<^verbatim>\<open>filepath.Base(tsConf)+".*"\<close> is \<^verbatim>\<open>resolv.tailscale.conf.*\<close>.
\<close>

definition replaceResolvConf ::
  "env \<Rightarrow> fs \<Rightarrow> wgcfg_IP list \<Rightarrow> string list \<Rightarrow> error option \<times> fs" where
  "replaceResolvConf env disk servers domains =
     (if length servers = 0 then restoreResolvConf env disk
      else
        let buf = managed_content env servers domains in
        case ioutil_TempFile env disk ''/etc'' ''resolv.tailscale.conf.'' of
          Inl e \<Rightarrow> (Some e, disk)
        | Inr (tempName, disk1) \<Rightarrow>
        (case atomicfile_WriteFile env disk1 tempName buf of
          (Some e, disk2) \<Rightarrow> (Some e, disk2)
        | (None, disk2) \<Rightarrow>
        (case os_Rename env disk2 tempName tsConf of
          (Some e, disk3) \<Rightarrow> (Some e, disk3)
        | (None, disk3) \<Rightarrow>
        (case os_Readlink env disk3 resolvConf of
          Inl e0 \<Rightarrow>
            let disk4 = snd (os_Remove env disk3 backupConf) in
            (case ioutil_ReadFile env disk4 resolvConf of
               Inl e \<Rightarrow> if IsNotExist e then (None, disk4) else (Some e, disk4)
             | Inr contents \<Rightarrow>
                 (case atomicfile_WriteFile env disk4 backupConf contents of
                    (Some e, disk5) \<Rightarrow> (Some e, disk5)
                  | (None, disk5) \<Rightarrow> link_resolvConf env disk5))
        | Inr linkPath \<Rightarrow>
            if linkPath \<noteq> tsConf then
              let disk4 = snd (os_Remove env disk3 backupConf) in
              (case os_Symlink env disk4 linkPath backupConf of
                 (Some e, disk5) \<Rightarrow> (Some e, disk5)
               | (None, disk5) \<Rightarrow> link_resolvConf env disk5)
            else (None, disk3)))))"

subsection \<open>The router\<close>

record openbsdRouter =
  tunname :: string
  local :: CIDR
  routes :: "CIDR set"

text \<open>
  \<^verbatim>\<open>routes\<close> is a \<^verbatim>\<open>map[wgcfg.CIDR]struct{}\<close>, Go's idiom for a set; the \<^verbatim>\<open>nil\<close>
  map of a new router is the empty set. \<^verbatim>\<open>newUserspaceRouter\<close> fails when the tunnel
  device cannot tell its name.
\<close>

definition newUserspaceRouter :: "error + string \<Rightarrow> error + openbsdRouter" where
  "newUserspaceRouter tundev_Name =
     (case tundev_Name of
        Inl e \<Rightarrow> Inl e
      | Inr name \<Rightarrow> Inr \<lparr>tunname = name, local = zero_CIDR, routes = {}\<rparr>)"

text \<open>
  Modelled from the spec: the type \<^verbatim>\<open>Settings\<close> is declared in another file of the
  package. The spec's DesiredSettings has local addresses and routes (prefixes), DNS
  servers (addresses) and search domains (strings); \<^verbatim>\<open>Set\<close> indexes
  \<^verbatim>\<open>rs.LocalAddrs\<close> and ranges over \<^verbatim>\<open>rs.Routes\<close> as a slice.
\<close>

record Settings =
  LocalAddrs :: "CIDR list"
  Routes :: "CIDR list"
  DNS :: "wgcfg_IP list"
  DNSDomains :: "string list"

text \<open>
  While \<^verbatim>\<open>Set\<close> runs it has a list of the commands issued so far and \<^verbatim>\<open>errq\<close>.
  Each of its six command sites is
  \<^verbatim>\<open>out, err := cmd(args...).CombinedOutput(); if err != nil { r.logf(...); if errq == nil { errq = err } }\<close>.
\<close>

type_synonym progress = "argv list \<times> error option"

definition run_cmd :: "env \<Rightarrow> argv \<Rightarrow> progress \<Rightarrow> progress" where
  "run_cmd env args st =
     (case st of (cmds, errq) \<Rightarrow>
        (case run env cmds args of
           None \<Rightarrow> (cmds @ [args], errq)
         | Some e \<Rightarrow> (cmds @ [args], if errq = None then Some e else errq)))"

text \<open>The commands for the interface address.\<close>

definition addrdel :: "env \<Rightarrow> openbsdRouter \<Rightarrow> argv" where
  "addrdel env r = [''ifconfig'', tunname r, ''inet'', CIDR_String env (local r), ''-alias'']"

definition local_routedel :: "env \<Rightarrow> openbsdRouter \<Rightarrow> argv" where
  "local_routedel env r =
     [''route'', ''-q'', ''-n'', ''del'', ''-inet'', CIDR_String env (local r),
      ''-iface'', IP_String env (IP (local r))]"

definition addradd :: "env \<Rightarrow> openbsdRouter \<Rightarrow> CIDR \<Rightarrow> argv" where
  "addradd env r localAddr =
     [''ifconfig'', tunname r, ''inet'', CIDR_String env localAddr, ''alias'']"

definition local_routeadd :: "env \<Rightarrow> CIDR \<Rightarrow> argv" where
  "local_routeadd env localAddr =
     [''route'', ''-q'', ''-n'', ''add'', ''-inet'', CIDR_String env localAddr,
      ''-iface'', IP_String env (IP localAddr)]"

text \<open>
  The commands for a route of the diff:
  \<^verbatim>\<open>net := route.IPNet(); nip := net.IP.Mask(net.Mask); nstr := fmt.Sprintf("%v/%d", nip, route.Mask)\<close>.
\<close>

definition nip :: "CIDR \<Rightarrow> net_IP" where
  "nip route = (case IPNet route of (ip, m) \<Rightarrow> IP_Mask ip m)"

definition nstr :: "env \<Rightarrow> CIDR \<Rightarrow> string" where
  "nstr env route = net_IP_String env (nip route) @ ''/'' @ decimal8 (Mask route)"

definition routedel :: "env \<Rightarrow> CIDR \<Rightarrow> CIDR \<Rightarrow> argv" where
  "routedel env localAddr route =
     [''route'', ''-q'', ''-n'', ''del'', ''-inet'', nstr env route,
      ''-iface'', IP_String env (IP localAddr)]"

definition routeadd :: "env \<Rightarrow> CIDR \<Rightarrow> CIDR \<Rightarrow> argv" where
  "routeadd env localAddr route =
     [''route'', ''-q'', ''-n'', ''add'', ''-inet'', nstr env route,
      ''-iface'', IP_String env (IP localAddr)]"

text \<open>The block \<^verbatim>\<open>if localAddr != r.local { ... }\<close>.\<close>

definition set_local :: "env \<Rightarrow> openbsdRouter \<Rightarrow> CIDR \<Rightarrow> progress \<Rightarrow> progress" where
  "set_local env r localAddr st =
     (if localAddr \<noteq> local r then
        let st1 = (if local r \<noteq> zero_CIDR
                   then run_cmd env (local_routedel env r) (run_cmd env (addrdel env r) st)
                   else st)
        in run_cmd env (local_routeadd env localAddr) (run_cmd env (addradd env r localAddr) st1)
      else st)"

text \<open>The loop \<^verbatim>\<open>for route := range r.routes\<close>, which deletes the routes that are
  not kept, and the loop \<^verbatim>\<open>for route := range newRoutes\<close>, which adds the ones that
  are new.\<close>

definition del_routes ::
  "env \<Rightarrow> openbsdRouter \<Rightarrow> CIDR \<Rightarrow> CIDR set \<Rightarrow> progress \<Rightarrow> progress" where
  "del_routes env r localAddr newRoutes st =
     fold (\<lambda>route st. if route \<notin> newRoutes then run_cmd env (routedel env localAddr route) st
                       else st)
       (range_order env (routes r)) st"

definition add_routes ::
  "env \<Rightarrow> openbsdRouter \<Rightarrow> CIDR \<Rightarrow> CIDR set \<Rightarrow> progress \<Rightarrow> progress" where
  "add_routes env r localAddr newRoutes st =
     fold (\<lambda>route st. if route \<notin> routes r then run_cmd env (routeadd env localAddr route) st
                       else st)
       (range_order env newRoutes) st"

text \<open>What a call of \<^verbatim>\<open>Set\<close> leaves: the error it returns, the router's fields, the
  commands it issued, and the file system.\<close>

record outcome =
  err :: "error option"
  router :: openbsdRouter
  issued :: "argv list"
  files :: fs

definition Set :: "env \<Rightarrow> fs \<Rightarrow> openbsdRouter \<Rightarrow> Settings \<Rightarrow> outcome" where
  "Set env disk r rs =
     (if length (LocalAddrs rs) \<noteq> 1
      then \<lparr>err = Some (ErrorString ''freebsd doesn't support setting multiple local addrs yet''),
            router = r, issued = [], files = disk\<rparr>
      else
        let localAddr = LocalAddrs rs ! 0;
            st1 = set_local env r localAddr ([], None);
            newRoutes = fold (\<lambda>route m. insert route m) (Routes rs) {};
            st2 = del_routes env r localAddr newRoutes st1;
            st3 = add_routes env r localAddr newRoutes st2;
            r' = r\<lparr>local := localAddr, routes := newRoutes\<rparr>;
            dns = replaceResolvConf env disk (DNS rs) (DNSDomains rs)
        in \<lparr>err = (case fst dns of
                     Some e \<Rightarrow> Some (Errorf ''replacing resolv.conf failed: '' e)
                   | None \<Rightarrow> snd st3),
            router = r', issued = fst st3, files = snd dns\<rparr>)"

text \<open>A \<^verbatim>\<open>range\<close> loop visits every key of the map once.\<close>

definition visits_once :: "env \<Rightarrow> CIDR set \<Rightarrow> bool" where
  "visits_once env S = (set (range_order env S) = S \<and> distinct (range_order env S))"

text \<open>
  The commands of the address block, read off \<^verbatim>\<open>set_local\<close>: none when the address
  is the stored one; otherwise the old alias and its route are removed (unless the stored
  address is the zero value), and the new alias and its route are added.
\<close>

definition local_cmds :: "env \<Rightarrow> openbsdRouter \<Rightarrow> CIDR \<Rightarrow> argv list" where
  "local_cmds env r localAddr =
     (if localAddr = local r then []
      else (if local r = zero_CIDR then [] else [addrdel env r, local_routedel env r]) @
           [addradd env r localAddr, local_routeadd env localAddr])"

subsection \<open>Prefixes and their network address\<close>

text \<open>
  What the claims about route arguments speak of, stated without Go's masks. A prefix
  length is valid when it is at most the width of the address (32 for IPv4, 128
  otherwise; \<^verbatim>\<open>wgcfg\<close> documents \<^verbatim>\<open>Mask\<close> as "0-32 for IPv4, 4-128 for IPv6").
  The host bits are the low bits the prefix length leaves over. The network address is
  the address with its host bits shifted out and zeros shifted back in. Two prefixes
  denote the same network when they have the same length and family and agree on every
  bit above the host bits.
\<close>

definition host_bits :: "CIDR \<Rightarrow> nat" where
  "host_bits c = (if Is4 (IP c) then 32 else 128) - unat (Mask c)"

definition valid_prefix :: "CIDR \<Rightarrow> bool" where
  "valid_prefix c = (unat (Mask c) \<le> (if Is4 (IP c) then 32 else 128))"

definition network_address :: "CIDR \<Rightarrow> net_IP" where
  "network_address c =
     (let h = host_bits c in
      if Is4 (IP c) then IP4 (push_bit h (drop_bit h (ucast (IP c))))
      else IP16 (push_bit h (drop_bit h (IP c))))"

definition same_network :: "CIDR \<Rightarrow> CIDR \<Rightarrow> bool" where
  "same_network c1 c2 =
     (Mask c1 = Mask c2 \<and> Is4 (IP c1) = Is4 (IP c2) \<and>
      drop_bit (host_bits c1) (IP c1) = drop_bit (host_bits c1) (IP c2))"

subsection \<open>The first error of a call\<close>

text \<open>
  The error of the first command that fails, when the commands \<open>cs\<close> are run in order
  after the commands \<open>hist\<close>; \<open>None\<close> when none fails. A progress of \<^verbatim>\<open>Set\<close> tracks
  it when its \<^verbatim>\<open>errq\<close> is the first error of the commands issued so far.
\<close>

fun first_error :: "env \<Rightarrow> argv list \<Rightarrow> argv list \<Rightarrow> error option" where
  "first_error env hist [] = None"
| "first_error env hist (c # cs) =
     (case run env hist c of
        Some e \<Rightarrow> Some e
      | None \<Rightarrow> first_error env (hist @ [c]) cs)"

definition tracks :: "env \<Rightarrow> progress \<Rightarrow> bool" where
  "tracks env st = (snd st = first_error env [] (fst st))"

subsection \<open>Example inputs\<close>

text \<open>
  IPv4 prefixes \<^verbatim>\<open>10.0.1.5/24\<close> and \<^verbatim>\<open>10.0.1.77/24\<close> (one network, different host
  bits), \<^verbatim>\<open>10.0.2.0/24\<close>, \<^verbatim>\<open>10.0.3.0/24\<close>, \<^verbatim>\<open>10.0.4.0/24\<close>, the interface address
  \<^verbatim>\<open>100.64.0.1/32\<close> and the name server \<^verbatim>\<open>8.8.8.8\<close>.
\<close>

definition route_A :: CIDR where
  "route_A = \<lparr>IP = 0xFFFF0A000105, Mask = 24\<rparr>"

definition route_A' :: CIDR where
  "route_A' = \<lparr>IP = 0xFFFF0A00014D, Mask = 24\<rparr>"

definition route_B :: CIDR where
  "route_B = \<lparr>IP = 0xFFFF0A000200, Mask = 24\<rparr>"

definition route_C :: CIDR where
  "route_C = \<lparr>IP = 0xFFFF0A000300, Mask = 24\<rparr>"

definition route_D :: CIDR where
  "route_D = \<lparr>IP = 0xFFFF0A000400, Mask = 24\<rparr>"

definition addr_L :: CIDR where
  "addr_L = \<lparr>IP = 0xFFFF64400001, Mask = 32\<rparr>"

definition ns_8888 :: wgcfg_IP where
  "ns_8888 = 0xFFFF08080808"

text \<open>
  An outside world: \<open>outcome\<close> decides each command by its arguments, \<open>refused\<close> the
  file operations; maps over the example routes are visited in the order A, B, C, D;
  the temporary file gets the suffix 123456.
\<close>

definition example_env :: "(argv \<Rightarrow> error option) \<Rightarrow> (fsop \<Rightarrow> bool) \<Rightarrow> env" where
  "example_env outcome refused =
     \<lparr>run = (\<lambda>cmds args. outcome args),
      range_order = (\<lambda>S. filter (\<lambda>c. c \<in> S) [route_A, route_B, route_C, route_D]),
      fault = refused, temp_random = ''123456'', ip6_text = (\<lambda>a. ''::''),
      printf0 = (\<lambda>s. s)\<rparr>"

text \<open>Nothing fails.\<close>

definition calm :: env where
  "calm = example_env (\<lambda>args. None) (\<lambda>op. False)"

text \<open>Every \<^verbatim>\<open>ifconfig\<close> command fails (say the interface is gone) and no temporary
  file can be created in \<^verbatim>\<open>/etc\<close>.\<close>

definition failing :: env where
  "failing =
     example_env (\<lambda>args. if take 1 args = [''ifconfig''] then Some (ExitError 1) else None)
       (\<lambda>op. op = OpTempFile ''/etc/resolv.tailscale.conf.123456'')"

text \<open>\<^verbatim>\<open>/etc/resolv.conf\<close> cannot be removed (say it carries the immutable flag).\<close>

definition immutable_resolvConf :: env where
  "immutable_resolvConf = example_env (\<lambda>args. None) (\<lambda>op. op = OpRemove resolvConf)"

definition new_router :: openbsdRouter where
  "new_router = \<lparr>tunname = ''tun0'', local = zero_CIDR, routes = {}\<rparr>"

definition r_ABC :: openbsdRouter where
  "r_ABC = \<lparr>tunname = ''tun0'', local = addr_L, routes = {route_A, route_B, route_C}\<rparr>"

definition want_BCD :: Settings where
  "want_BCD =
     \<lparr>LocalAddrs = [addr_L], Routes = [route_B, route_C, route_D], DNS = [], DNSDomains = []\<rparr>"

definition want_dns :: Settings where
  "want_dns = \<lparr>LocalAddrs = [addr_L], Routes = [route_B], DNS = [ns_8888], DNSDomains = []\<rparr>"

text \<open>
  An IPv4 prefix whose length, 40, is more than the 32 bits of its address
  (\<^verbatim>\<open>10.0.1.5/40\<close>); an outside world in which nothing fails and a map holding that
  prefix is visited; a router that has the prefix as its only route; and settings with no
  route and with that route only.
\<close>

definition route_long :: CIDR where
  "route_long = \<lparr>IP = 0xFFFF0A000105, Mask = 40\<rparr>"

definition calm_long :: env where
  "calm_long = calm\<lparr>range_order := (\<lambda>S. filter (\<lambda>c. c \<in> S) [route_long])\<rparr>"

definition r_long :: openbsdRouter where
  "r_long = \<lparr>tunname = ''tun0'', local = addr_L, routes = {route_long}\<rparr>"

definition want_none :: Settings where
  "want_none = \<lparr>LocalAddrs = [addr_L], Routes = [], DNS = [], DNSDomains = []\<rparr>"

definition want_long :: Settings where
  "want_long = \<lparr>LocalAddrs = [addr_L], Routes = [route_long], DNS = [], DNSDomains = []\<rparr>"

text \<open>File systems: an ordinary \<^verbatim>\<open>resolv.conf\<close>; a \<^verbatim>\<open>resolv.conf\<close> that is a link to
  a file that does not exist; and a backup that is such a link, beside a \<^verbatim>\<open>resolv.conf\<close>
  that something else has rewritten.\<close>

definition plain_disk :: fs where
  "plain_disk = [resolvConf \<mapsto> File ''nameserver 192.0.2.1'']"

definition dangling_link :: fs where
  "dangling_link = [resolvConf \<mapsto> Symlink ''/var/run/resolv.conf'']"

definition dangling_backup :: fs where
  "dangling_backup =
     [backupConf \<mapsto> Symlink ''/var/run/resolv.conf'',
      resolvConf \<mapsto> File ''nameserver 192.0.2.1'']"

section \<open>Lemmas\<close>

lemmas example_defs = route_A_def route_A'_def route_B_def route_C_def route_D_def addr_L_def
  ns_8888_def example_env_def calm_def failing_def immutable_resolvConf_def new_router_def
  r_ABC_def want_BCD_def want_dns_def plain_disk_def dangling_link_def dangling_backup_def

lemmas text_defs = CIDR_String_def IP_String_def dotted_def decimal8_def digit_def Is4_def

lemmas op_defs = os_Stat_def os_Readlink_def ioutil_ReadFile_def os_Remove_def os_Symlink_def
  os_Rename_def ioutil_TempFile_def atomicfile_WriteFile_def MAXSYMLINKS_def

lemmas path_defs = tsConf_def backupConf_def resolvConf_def target_path_def dirname_def

lemma follow_numeral [simp]:
  "follow (numeral k) disk p =
     (case disk p of
        None \<Rightarrow> Inl (PathError ENOENT)
      | Some (File c) \<Rightarrow> Inr (File c)
      | Some (Symlink t) \<Rightarrow> follow (pred_numeral k) disk (target_path p t))"
  by (simp add: numeral_eq_Suc)

subsection \<open>The commands \<^verbatim>\<open>Set\<close> issues\<close>

lemma fst_run_cmd: "fst (run_cmd env args st) = fst st @ [args]"
  by (simp add: run_cmd_def split: prod.splits option.splits)

lemma fst_set_local: "fst (set_local env r a st) = fst st @ local_cmds env r a"
  by (simp add: set_local_def local_cmds_def fst_run_cmd Let_def)

lemma fst_fold_run_cmd:
  "fst (fold (\<lambda>route st. if P route then run_cmd env (f route) st else st) xs st) =
     fst st @ map f (filter P xs)"
  by (induction xs arbitrary: st) (simp_all add: fst_run_cmd)

lemma fst_del_routes:
  "fst (del_routes env r a N st) =
     fst st @ map (routedel env a) (filter (\<lambda>c. c \<notin> N) (range_order env (routes r)))"
  unfolding del_routes_def by (rule fst_fold_run_cmd)

lemma fst_add_routes:
  "fst (add_routes env r a N st) =
     fst st @ map (routeadd env a) (filter (\<lambda>c. c \<notin> routes r) (range_order env N))"
  unfolding add_routes_def by (rule fst_fold_run_cmd)

lemma fold_insert_set: "fold (\<lambda>route m. insert route m) xs S = set xs \<union> S"
  by (induction xs arbitrary: S) auto

lemma distinct_set_single: "distinct xs \<Longrightarrow> set xs = {x} \<Longrightarrow> xs = [x]"
  by (cases xs; cases "tl xs") auto

lemma issued_Set:
  "LocalAddrs rs = [a] \<Longrightarrow>
   issued (Set env disk r rs) =
     local_cmds env r a @
     map (routedel env a) (filter (\<lambda>c. c \<notin> set (Routes rs)) (range_order env (routes r))) @
     map (routeadd env a) (filter (\<lambda>c. c \<notin> routes r) (range_order env (set (Routes rs))))"
  by (simp add: Set_def Let_def fst_add_routes fst_del_routes fst_set_local fold_insert_set)

lemma router_Set:
  "LocalAddrs rs = [a] \<Longrightarrow>
   router (Set env disk r rs) = r\<lparr>local := a, routes := set (Routes rs)\<rparr>"
  by (simp add: Set_def Let_def fold_insert_set)

lemma err_Set_length:
  "err (Set env disk r rs) = None \<Longrightarrow> \<exists>a. LocalAddrs rs = [a]"
  by (cases "LocalAddrs rs"; cases "tl (LocalAddrs rs)") (auto simp add: Set_def)

subsection \<open>Masking and the network address\<close>

lemma and_not_mask_shift: "(w :: 'a::len word) AND NOT (mask n) = push_bit n (drop_bit n w)"
  by (rule bit_eqI) (auto simp add: bit_simps)

lemma shift_clears_low_bits:
  "take_bit h (push_bit h (drop_bit h (w :: 'a::len word))) = 0"
  by (rule bit_eqI) (auto simp add: bit_simps)

lemma shift_keeps_high_bits:
  "drop_bit h (push_bit h (drop_bit h (w :: 'a::len word))) = drop_bit h w"
  by (rule bit_eqI) (auto simp add: bit_simps dest: bit_imp_le_length)

text \<open>The network address of an IPv4 prefix has zero host bits and the address's bits
  above them.\<close>

lemma network_address_IP4:
  "Is4 (IP c) \<Longrightarrow>
     \<exists>w. network_address c = IP4 w \<and> take_bit (host_bits c) w = 0 \<and>
         drop_bit (host_bits c) w = drop_bit (host_bits c) (ucast (IP c))"
  by (simp add: network_address_def Let_def shift_clears_low_bits shift_keeps_high_bits)

lemma nip_valid: "valid_prefix c \<Longrightarrow> nip c = network_address c"
  by (cases "Is4 (IP c)")
     (simp_all add: nip_def IPNet_def CIDRMask_def valid_prefix_def network_address_def
        host_bits_def and_not_mask_shift Let_def)

lemma nip_invalid: "\<not> valid_prefix c \<Longrightarrow> nip c = nil_IP"
  by (simp add: nip_def IPNet_def CIDRMask_def valid_prefix_def Let_def)

lemma drop_bit_ucast_cong:
  fixes a b :: "128 word"
  assumes "drop_bit h a = drop_bit h b"
  shows "drop_bit h (ucast a :: 32 word) = drop_bit h (ucast b :: 32 word)"
proof (rule bit_eqI)
  fix n
  have "bit (drop_bit h a) n = bit (drop_bit h b) n" using assms by simp
  then have "bit a (h + n) = bit b (h + n)" by (simp add: bit_simps)
  then show "bit (drop_bit h (ucast a :: 32 word)) n = bit (drop_bit h (ucast b :: 32 word)) n"
    by (simp add: bit_simps)
qed

lemma network_address_same:
  assumes "same_network c1 c2"
  shows "network_address c1 = network_address c2"
proof -
  have h: "host_bits c1 = host_bits c2"
    using assms by (simp add: same_network_def host_bits_def)
  have d: "drop_bit (host_bits c2) (IP c1) = drop_bit (host_bits c2) (IP c2)"
    using assms h by (simp add: same_network_def)
  show ?thesis
    using assms h d drop_bit_ucast_cong [OF d]
    by (simp add: network_address_def same_network_def Let_def)
qed

lemma nip_same:
  assumes "same_network c1 c2"
  shows "nip c1 = nip c2"
proof -
  have v: "valid_prefix c1 = valid_prefix c2"
    using assms by (simp add: same_network_def valid_prefix_def)
  show ?thesis
  proof (cases "valid_prefix c1")
    case True
    then show ?thesis using v assms by (simp add: nip_valid network_address_same)
  next
    case False
    then show ?thesis using v by (simp add: nip_invalid)
  qed
qed

subsection \<open>First error wins among the commands, and every command is issued\<close>

lemma first_error_snoc:
  "first_error env h (xs @ [c]) =
     (case first_error env h xs of Some e \<Rightarrow> Some e | None \<Rightarrow> run env (h @ xs) c)"
  by (induction xs arbitrary: h) (auto split: option.splits)

lemma tracks_run_cmd: "tracks env st \<Longrightarrow> tracks env (run_cmd env args st)"
  by (cases st) (auto simp add: tracks_def run_cmd_def first_error_snoc split: option.splits)

lemma tracks_fold:
  "tracks env st \<Longrightarrow>
   tracks env (fold (\<lambda>route st. if P route then run_cmd env (f route) st else st) xs st)"
  by (induction xs arbitrary: st) (simp_all add: tracks_run_cmd)

lemma tracks_set_local: "tracks env st \<Longrightarrow> tracks env (set_local env r a st)"
  by (simp add: set_local_def Let_def tracks_run_cmd)

lemma tracks_del_routes: "tracks env st \<Longrightarrow> tracks env (del_routes env r a N st)"
  unfolding del_routes_def by (rule tracks_fold)

lemma tracks_add_routes: "tracks env st \<Longrightarrow> tracks env (add_routes env r a N st)"
  unfolding add_routes_def by (rule tracks_fold)

text \<open>When the DNS replacement succeeds, \<^verbatim>\<open>Set\<close> returns the first error among its
  commands.\<close>

lemma Set_first_command_error:
  assumes "LocalAddrs rs = [a]"
    and "fst (replaceResolvConf env disk (DNS rs) (DNSDomains rs)) = None"
  shows "err (Set env disk r rs) = first_error env [] (issued (Set env disk r rs))"
proof -
  have "tracks env ([], None)" by (simp add: tracks_def)
  then have "tracks env
      (add_routes env r a (set (Routes rs))
        (del_routes env r a (set (Routes rs)) (set_local env r a ([], None))))"
    by (intro tracks_add_routes tracks_del_routes tracks_set_local)
  then show ?thesis
    using assms by (simp add: Set_def Let_def fold_insert_set tracks_def)
qed

text \<open>When it fails, \<^verbatim>\<open>Set\<close> returns its error, whatever the commands did.\<close>

lemma Set_dns_error:
  assumes "LocalAddrs rs = [a]"
    and "fst (replaceResolvConf env disk (DNS rs) (DNSDomains rs)) = Some e"
  shows "err (Set env disk r rs) = Some (Errorf ''replacing resolv.conf failed: '' e)"
  using assms by (simp add: Set_def Let_def)

text \<open>The commands a call issues do not depend on which commands fail, and the DNS
  replacement is always attempted on the file system the call was given.\<close>

lemma text_run_update: "net_IP_String (env\<lparr>run := f\<rparr>) x = net_IP_String env x"
  by (cases x) simp_all

lemma Set_attempts_all:
  "issued (Set (env\<lparr>run := f\<rparr>) disk r rs) = issued (Set env disk r rs)"
proof (cases "\<exists>a. LocalAddrs rs = [a]")
  case True
  then obtain a where a: "LocalAddrs rs = [a]" by blast
  have "routedel (env\<lparr>run := f\<rparr>) a = routedel env a"
    by (simp add: routedel_def nstr_def IP_String_def text_run_update fun_eq_iff)
  moreover have "routeadd (env\<lparr>run := f\<rparr>) a = routeadd env a"
    by (simp add: routeadd_def nstr_def IP_String_def text_run_update fun_eq_iff)
  moreover have "local_cmds (env\<lparr>run := f\<rparr>) r a = local_cmds env r a"
    by (simp add: local_cmds_def addrdel_def addradd_def local_routedel_def local_routeadd_def
          CIDR_String_def IP_String_def text_run_update)
  ultimately show ?thesis by (simp add: issued_Set [OF a])
next
  case False
  then have "length (LocalAddrs rs) \<noteq> 1"
    by (cases "LocalAddrs rs"; cases "tl (LocalAddrs rs)") auto
  then show ?thesis by (simp add: Set_def)
qed

lemma files_Set:
  "LocalAddrs rs = [a] \<Longrightarrow>
   files (Set env disk r rs) = snd (replaceResolvConf env disk (DNS rs) (DNSDomains rs))"
  by (simp add: Set_def Let_def)

subsection \<open>Taking over and restoring when nothing is refused\<close>

lemma tempName_fresh_paths:
  "''/etc/resolv.tailscale.conf.'' @ x \<noteq> tsConf"
  "''/etc/resolv.tailscale.conf.'' @ x \<noteq> backupConf"
  "''/etc/resolv.tailscale.conf.'' @ x \<noteq> resolvConf"
  by (simp_all add: tsConf_def backupConf_def resolvConf_def)

lemma paths_distinct:
  "tsConf \<noteq> backupConf" "tsConf \<noteq> resolvConf" "backupConf \<noteq> resolvConf"
  "backupConf \<noteq> tsConf" "resolvConf \<noteq> tsConf" "resolvConf \<noteq> backupConf"
  by (simp_all add: tsConf_def backupConf_def resolvConf_def)

text \<open>The last step never returns an error.\<close>

lemma link_resolvConf_returns_nil: "fst (link_resolvConf env disk) = None"
  by (simp add: link_resolvConf_def Let_def split: prod.splits option.splits)

text \<open>Without a \<^verbatim>\<open>resolv.conf\<close> the takeover writes the managed file, removes an old
  backup, and stops.\<close>

lemma replace_absent:
  assumes "fault env = (\<lambda>op. False)"
    and "servers \<noteq> []"
    and "disk resolvConf = None"
    and "disk (''/etc/resolv.tailscale.conf.'' @ temp_random env) = None"
  shows "replaceResolvConf env disk servers domains =
           (None, disk(tsConf \<mapsto> File (managed_content env servers domains),
                       backupConf := None))"
  using assms
  by (auto simp add: replaceResolvConf_def op_defs Let_def
        tempName_fresh_paths paths_distinct fun_upd_twist)

lemma replace_regular_file:
  assumes "fault env = (\<lambda>op. False)"
    and "servers \<noteq> []"
    and "disk resolvConf = Some (File c)"
    and "disk (''/etc/resolv.tailscale.conf.'' @ temp_random env) = None"
  shows "replaceResolvConf env disk servers domains =
           (None, disk(tsConf \<mapsto> File (managed_content env servers domains),
                       backupConf \<mapsto> File c, resolvConf \<mapsto> Symlink tsConf))"
  using assms
  by (auto simp add: replaceResolvConf_def link_resolvConf_def op_defs Let_def
        tempName_fresh_paths paths_distinct fun_upd_twist)

lemma replace_foreign_link:
  assumes "fault env = (\<lambda>op. False)"
    and "servers \<noteq> []"
    and "disk resolvConf = Some (Symlink t)" and "t \<noteq> tsConf"
    and "disk (''/etc/resolv.tailscale.conf.'' @ temp_random env) = None"
  shows "replaceResolvConf env disk servers domains =
           (None, disk(tsConf \<mapsto> File (managed_content env servers domains),
                       backupConf \<mapsto> Symlink t, resolvConf \<mapsto> Symlink tsConf))"
  using assms
  by (auto simp add: replaceResolvConf_def link_resolvConf_def op_defs Let_def
        tempName_fresh_paths paths_distinct fun_upd_twist)

lemma restore_managed:
  assumes "fault env = (\<lambda>op. False)"
    and "os_Stat env disk backupConf = Inr info"
    and "disk resolvConf = Some (Symlink tsConf)"
  shows "restoreResolvConf env disk =
           (None, disk(resolvConf := disk backupConf, backupConf := None, tsConf := None))"
proof -
  have "disk backupConf \<noteq> None"
    using assms(1,2) by (auto simp add: os_Stat_def split: option.splits)
  then show ?thesis
    using assms
    by (auto simp add: restoreResolvConf_def os_Readlink_def os_Rename_def os_Remove_def
          paths_distinct)
qed

text \<open>
  From a regular file, a takeover followed by a restore leaves \<^verbatim>\<open>resolv.conf\<close> and
  every other path as they were, except that the managed file and the backup do not
  exist. From a symbolic link the same holds when \<^verbatim>\<open>os.Stat\<close> finds the saved link's
  target.
\<close>

lemma restore_inverse_file:
  assumes "fault env = (\<lambda>op. False)"
    and "servers \<noteq> []"
    and "disk resolvConf = Some (File c)"
    and "disk (''/etc/resolv.tailscale.conf.'' @ temp_random env) = None"
  shows "fst (replaceResolvConf env disk servers domains) = None \<and>
         restoreResolvConf env (snd (replaceResolvConf env disk servers domains)) =
           (None, disk(backupConf := None, tsConf := None))"
proof -
  let ?d = "disk(tsConf \<mapsto> File (managed_content env servers domains),
                  backupConf \<mapsto> File c, resolvConf \<mapsto> Symlink tsConf)"
  have r: "replaceResolvConf env disk servers domains = (None, ?d)"
    using assms by (rule replace_regular_file)
  have s: "os_Stat env ?d backupConf = Inr (File c)"
    using assms(1) by (simp add: os_Stat_def paths_distinct)
  have "restoreResolvConf env ?d =
          (None, ?d(resolvConf := ?d backupConf, backupConf := None, tsConf := None))"
    using assms(1) s by (rule restore_managed) simp
  moreover have "?d(resolvConf := ?d backupConf, backupConf := None, tsConf := None) =
                 disk(backupConf := None, tsConf := None)"
    using assms(3) by (auto simp add: fun_eq_iff paths_distinct)
  ultimately show ?thesis using r by simp
qed

lemma restore_inverse_link:
  assumes "fault env = (\<lambda>op. False)"
    and "servers \<noteq> []"
    and "disk resolvConf = Some (Symlink t)" and "t \<noteq> tsConf"
    and "disk (''/etc/resolv.tailscale.conf.'' @ temp_random env) = None"
    and "os_Stat env (snd (replaceResolvConf env disk servers domains)) backupConf = Inr info"
  shows "fst (replaceResolvConf env disk servers domains) = None \<and>
         restoreResolvConf env (snd (replaceResolvConf env disk servers domains)) =
           (None, disk(backupConf := None, tsConf := None))"
proof -
  let ?d = "disk(tsConf \<mapsto> File (managed_content env servers domains),
                  backupConf \<mapsto> Symlink t, resolvConf \<mapsto> Symlink tsConf)"
  have r: "replaceResolvConf env disk servers domains = (None, ?d)"
    using assms(1-5) by (rule replace_foreign_link)
  have s: "os_Stat env ?d backupConf = Inr info"
    using assms(6) r by simp
  have "restoreResolvConf env ?d =
          (None, ?d(resolvConf := ?d backupConf, backupConf := None, tsConf := None))"
    using assms(1) s by (rule restore_managed) simp
  moreover have "?d(resolvConf := ?d backupConf, backupConf := None, tsConf := None) =
                 disk(backupConf := None, tsConf := None)"
    using assms(3) by (auto simp add: fun_eq_iff paths_distinct)
  ultimately show ?thesis using r by simp
qed

text \<open>When \<^verbatim>\<open>os.Stat\<close> finds the backup and \<^verbatim>\<open>resolv.conf\<close> is not a link to the
  managed file, the restore returns an error and changes nothing, whatever is refused.\<close>

lemma restore_refuses:
  assumes "os_Stat env disk backupConf = Inr info"
    and "disk resolvConf \<noteq> Some (Symlink tsConf)"
  shows "\<exists>e. restoreResolvConf env disk = (Some e, disk)"
proof (cases "os_Readlink env disk resolvConf")
  case (Inl e)
  then show ?thesis using assms(1) by (simp add: restoreResolvConf_def)
next
  case (Inr ln)
  then have "disk resolvConf = Some (Symlink ln)"
    by (auto simp add: os_Readlink_def split: if_splits option.splits node.splits)
  with assms(2) have "ln \<noteq> tsConf" by auto
  then show ?thesis using assms(1) Inr by (simp add: restoreResolvConf_def)
qed

section \<open>The claims\<close>

subsection \<open>Taking over when there is no \<^verbatim>\<open>resolv.conf\<close>\<close>


subsection \<open>The error \<^verbatim>\<open>Set\<close> returns\<close>

text \<open>
  Claim C2: when several operations of one \<^verbatim>\<open>Set\<close> call fail, the caller gets the
  first error of the call, and the remaining operations (route deletes, route adds, the
  DNS replacement) are still attempted.

  The operations are all attempted, but an error of the DNS replacement replaces
  \<^verbatim>\<open>errq\<close> whatever it holds. For a new router, with the interface gone and \<^verbatim>\<open>/etc\<close>
  not writable: the first command fails with exit status 1, the two route commands are
  still issued, and the error returned is the later one of \<^verbatim>\<open>replaceResolvConf\<close>.
\<close>

theorem Set_returns_last_error:
  "run failing [] (addradd failing new_router addr_L) = Some (ExitError 1) \<and>
   issued (Set failing Map.empty new_router want_dns) =
     [addradd failing new_router addr_L, local_routeadd failing addr_L,
      routeadd failing addr_L route_B] \<and>
   err (Set failing Map.empty new_router want_dns) =
     Some (Errorf ''replacing resolv.conf failed: '' (PathError EACCES))"
  by (simp add: Set_def Let_def set_local_def del_routes_def add_routes_def run_cmd_def
        replaceResolvConf_def op_defs path_defs example_defs zero_CIDR_def addradd_def)

subsection \<open>A failure of the last symbolic link\<close>

text \<open>
  Claim C3: when \<^verbatim>\<open>replaceResolvConf\<close> reaches its last step and cannot create the
  symbolic link at the resolver path, it returns that error.

  The code returns \<^verbatim>\<open>nil\<close> in both branches of its last \<^verbatim>\<open>if\<close>. With an ordinary
  \<^verbatim>\<open>resolv.conf\<close> that cannot be removed, the backup is written, the removal fails,
  \<^verbatim>\<open>os.Symlink\<close> then fails because the path is taken, and the call reports success
  while \<^verbatim>\<open>resolv.conf\<close> is the file it was.
\<close>

theorem replace_swallows_symlink_failure:
  "fst (replaceResolvConf immutable_resolvConf plain_disk [ns_8888] []) = None \<and>
   snd (replaceResolvConf immutable_resolvConf plain_disk [ns_8888] []) resolvConf =
     Some (File ''nameserver 192.0.2.1'') \<and>
   fst (os_Symlink immutable_resolvConf
          (snd (replaceResolvConf immutable_resolvConf plain_disk [ns_8888] []))
          tsConf resolvConf) = Some (PathError EEXIST)"
  by (simp add: replaceResolvConf_def link_resolvConf_def Let_def op_defs path_defs example_defs)

subsection \<open>Taking over and restoring\<close>

text \<open>
  Claim C4: from a \<^verbatim>\<open>resolv.conf\<close> that is a regular file, or a symbolic link to
  anything but the managed file, \<^verbatim>\<open>replaceResolvConf\<close> with servers followed by
  \<^verbatim>\<open>restoreResolvConf\<close> gives back the original content or link target, and neither
  the managed file nor the backup exists afterwards.

  \<^verbatim>\<open>restoreResolvConf\<close> looks for the backup with \<^verbatim>\<open>os.Stat\<close>, which follows
  symbolic links. When \<^verbatim>\<open>resolv.conf\<close> was a link to a file that does not exist, the
  backup is such a link too, \<^verbatim>\<open>os.Stat\<close> reports that nothing is there, and the restore
  returns \<^verbatim>\<open>nil\<close> without doing anything: \<^verbatim>\<open>resolv.conf\<close> still points to the
  managed file, and the managed file and the backup are still there.
\<close>

theorem restore_after_replace_dangling:
  "fst (replaceResolvConf calm dangling_link [ns_8888] []) = None \<and>
   fst (restoreResolvConf calm (snd (replaceResolvConf calm dangling_link [ns_8888] []))) = None \<and>
   snd (restoreResolvConf calm (snd (replaceResolvConf calm dangling_link [ns_8888] []))) resolvConf
     = Some (Symlink tsConf) \<and>
   snd (restoreResolvConf calm (snd (replaceResolvConf calm dangling_link [ns_8888] []))) backupConf
     = Some (Symlink ''/var/run/resolv.conf'') \<and>
   snd (restoreResolvConf calm (snd (replaceResolvConf calm dangling_link [ns_8888] []))) tsConf
     = Some (File (managed_content calm [ns_8888] []))"
  by (simp add: replaceResolvConf_def restoreResolvConf_def link_resolvConf_def Let_def
        op_defs path_defs example_defs)

subsection \<open>Applying the same settings twice\<close>

text \<open>
  Claim C5: after a \<^verbatim>\<open>Set\<close> call that succeeded, a second \<^verbatim>\<open>Set\<close> call with the same
  settings issues no command at all. The second call may meet any outside world (in which
  a \<^verbatim>\<open>range\<close> loop visits each key once) and any file system.
\<close>

theorem Set_idempotent:
  assumes "err (Set env1 disk1 r rs) = None"
    and "visits_once env2 (set (Routes rs))"
  shows "issued (Set env2 disk2 (router (Set env1 disk1 r rs)) rs) = []"
proof -
  from assms(1) obtain a where a: "LocalAddrs rs = [a]"
    using err_Set_length by blast
  have r1: "router (Set env1 disk1 r rs) = r\<lparr>local := a, routes := set (Routes rs)\<rparr>"
    using a by (rule router_Set)
  from assms(2) have sub: "set (range_order env2 (set (Routes rs))) = set (Routes rs)"
    by (simp add: visits_once_def)
  have "filter (\<lambda>c. c \<notin> set (Routes rs)) (range_order env2 (set (Routes rs))) = []"
    using sub by (simp add: filter_empty_conv)
  then show ?thesis
    using a by (simp add: issued_Set r1 local_cmds_def)
qed

text \<open>A new router is given an address, three routes and no DNS servers: the first call
  succeeds (and issues five commands), the second issues none.\<close>

theorem Set_idempotent_witness:
  "err (Set calm Map.empty new_router want_BCD) = None \<and>
   length (issued (Set calm Map.empty new_router want_BCD)) = 5 \<and>
   visits_once calm (set (Routes want_BCD)) \<and>
   issued (Set calm plain_disk (router (Set calm Map.empty new_router want_BCD)) want_BCD) = []"
proof -
  have first: "err (Set calm Map.empty new_router want_BCD) = None"
    by (simp add: Set_def Let_def set_local_def del_routes_def add_routes_def run_cmd_def
          replaceResolvConf_def restoreResolvConf_def op_defs path_defs example_defs zero_CIDR_def)
  have five: "length (issued (Set calm Map.empty new_router want_BCD)) = 5"
    by (simp add: issued_Set [of _ addr_L] local_cmds_def example_defs zero_CIDR_def)
  have once: "visits_once calm (set (Routes want_BCD))"
    by (simp add: visits_once_def example_defs)
  show ?thesis
    using first five once Set_idempotent [OF first once, of plain_disk] by simp
qed

subsection \<open>The route diff\<close>

text \<open>
  Claim C6: \<^verbatim>\<open>Set\<close> issues exactly one route-delete command for each route that is
  stored but not desired, exactly one route-add command for each route that is desired
  but not stored, and none for a route in both sets. The commands of the call are, in
  this order: those of the address block (none when the address is the stored one);
  \<^verbatim>\<open>route -q -n del -inet <nstr> -iface <address>\<close> once for each element of a
  duplicate-free list of the routes only stored; and
  \<^verbatim>\<open>route -q -n add -inet <nstr> -iface <address>\<close> once for each element of a
  duplicate-free list of the routes only desired. (The order within each list is the
  order of Go's map iteration. A route is an element of the map, address and length:
  two elements that denote one network give the same \<^verbatim>\<open>nstr\<close>.)
\<close>

theorem Set_route_diff:
  assumes "LocalAddrs rs = [a]"
    and "visits_once env (routes r)"
    and "visits_once env (set (Routes rs))"
  shows "\<exists>dels adds.
           distinct dels \<and> set dels = routes r - set (Routes rs) \<and>
           distinct adds \<and> set adds = set (Routes rs) - routes r \<and>
           issued (Set env disk r rs) =
             (if a = local r then []
              else (if local r = zero_CIDR then []
                    else [[''ifconfig'', tunname r, ''inet'', CIDR_String env (local r), ''-alias''],
                          [''route'', ''-q'', ''-n'', ''del'', ''-inet'', CIDR_String env (local r),
                           ''-iface'', IP_String env (IP (local r))]]) @
                   [[''ifconfig'', tunname r, ''inet'', CIDR_String env a, ''alias''],
                    [''route'', ''-q'', ''-n'', ''add'', ''-inet'', CIDR_String env a,
                     ''-iface'', IP_String env (IP a)]]) @
             map (\<lambda>route. [''route'', ''-q'', ''-n'', ''del'', ''-inet'', nstr env route,
                             ''-iface'', IP_String env (IP a)]) dels @
             map (\<lambda>route. [''route'', ''-q'', ''-n'', ''add'', ''-inet'', nstr env route,
                             ''-iface'', IP_String env (IP a)]) adds"
proof (intro exI conjI)
  let ?dels = "filter (\<lambda>c. c \<notin> set (Routes rs)) (range_order env (routes r))"
  let ?adds = "filter (\<lambda>c. c \<notin> routes r) (range_order env (set (Routes rs)))"
  show "distinct ?dels" using assms(2) by (simp add: visits_once_def)
  show "set ?dels = routes r - set (Routes rs)"
    using assms(2) by (auto simp add: visits_once_def)
  show "distinct ?adds" using assms(3) by (simp add: visits_once_def)
  show "set ?adds = set (Routes rs) - routes r"
    using assms(3) by (auto simp add: visits_once_def)
  have del: "routedel env a =
      (\<lambda>route. [''route'', ''-q'', ''-n'', ''del'', ''-inet'', nstr env route,
                  ''-iface'', IP_String env (IP a)])"
    by (simp add: routedel_def fun_eq_iff)
  have add: "routeadd env a =
      (\<lambda>route. [''route'', ''-q'', ''-n'', ''add'', ''-inet'', nstr env route,
                  ''-iface'', IP_String env (IP a)])"
    by (simp add: routeadd_def fun_eq_iff)
  show "issued (Set env disk r rs) =
             (if a = local r then []
              else (if local r = zero_CIDR then []
                    else [[''ifconfig'', tunname r, ''inet'', CIDR_String env (local r), ''-alias''],
                          [''route'', ''-q'', ''-n'', ''del'', ''-inet'', CIDR_String env (local r),
                           ''-iface'', IP_String env (IP (local r))]]) @
                   [[''ifconfig'', tunname r, ''inet'', CIDR_String env a, ''alias''],
                    [''route'', ''-q'', ''-n'', ''add'', ''-inet'', CIDR_String env a,
                     ''-iface'', IP_String env (IP a)]]) @
             map (\<lambda>route. [''route'', ''-q'', ''-n'', ''del'', ''-inet'', nstr env route,
                             ''-iface'', IP_String env (IP a)]) ?dels @
             map (\<lambda>route. [''route'', ''-q'', ''-n'', ''add'', ''-inet'', nstr env route,
                             ''-iface'', IP_String env (IP a)]) ?adds"
    unfolding issued_Set [OF assms(1)] del add
    by (simp add: local_cmds_def addrdel_def local_routedel_def addradd_def local_routeadd_def)
qed

text \<open>Stored A, B, C and desired B, C, D, with the address unchanged: the call issues
  exactly two commands, a delete for A (\<^verbatim>\<open>10.0.1.0/24\<close>) and an add for D
  (\<^verbatim>\<open>10.0.4.0/24\<close>).\<close>

theorem Set_route_diff_witness:
  "LocalAddrs want_BCD = [addr_L] \<and> visits_once calm (routes r_ABC) \<and>
   visits_once calm (set (Routes want_BCD)) \<and>
   routes r_ABC - set (Routes want_BCD) = {route_A} \<and>
   set (Routes want_BCD) - routes r_ABC = {route_D} \<and>
   issued (Set calm Map.empty r_ABC want_BCD) =
     [[''route'', ''-q'', ''-n'', ''del'', ''-inet'', ''10.0.1.0/24'', ''-iface'', ''100.64.0.1''],
      [''route'', ''-q'', ''-n'', ''add'', ''-inet'', ''10.0.4.0/24'', ''-iface'', ''100.64.0.1'']]"
proof -
  have one: "LocalAddrs want_BCD = [addr_L]"
    by (simp add: want_BCD_def)
  have old: "visits_once calm (routes r_ABC)"
    by (simp add: visits_once_def example_defs)
  have new: "visits_once calm (set (Routes want_BCD))"
    by (simp add: visits_once_def example_defs)
  have dels: "routes r_ABC - set (Routes want_BCD) = {route_A}"
    by (auto simp add: example_defs)
  have adds: "set (Routes want_BCD) - routes r_ABC = {route_D}"
    by (auto simp add: example_defs)
  have same: "addr_L = local r_ABC"
    by (simp add: r_ABC_def)
  have nA: "nstr calm route_A = ''10.0.1.0/24''"
    by (simp add: nstr_def nip_def IPNet_def CIDRMask_def mask_eq_exp_minus_1 route_A_def
          text_defs)
  have nD: "nstr calm route_D = ''10.0.4.0/24''"
    by (simp add: nstr_def nip_def IPNet_def CIDRMask_def mask_eq_exp_minus_1 route_D_def
          text_defs)
  have ip: "IP_String calm (IP addr_L) = ''100.64.0.1''"
    by (simp add: addr_L_def text_defs)
  from Set_route_diff [OF one old new, of Map.empty]
  obtain ds as where "distinct ds" "set ds = {route_A}" "distinct as" "set as = {route_D}"
    and i: "issued (Set calm Map.empty r_ABC want_BCD) =
      map (\<lambda>route. [''route'', ''-q'', ''-n'', ''del'', ''-inet'', nstr calm route,
                      ''-iface'', IP_String calm (IP addr_L)]) ds @
      map (\<lambda>route. [''route'', ''-q'', ''-n'', ''add'', ''-inet'', nstr calm route,
                      ''-iface'', IP_String calm (IP addr_L)]) as"
    unfolding dels adds using same by auto
  then have "ds = [route_A]" "as = [route_D]"
    by (simp_all add: distinct_set_single)
  with i have "issued (Set calm Map.empty r_ABC want_BCD) =
     [[''route'', ''-q'', ''-n'', ''del'', ''-inet'', ''10.0.1.0/24'', ''-iface'', ''100.64.0.1''],
      [''route'', ''-q'', ''-n'', ''add'', ''-inet'', ''10.0.4.0/24'', ''-iface'', ''100.64.0.1'']]"
    by (simp add: nA nD ip)
  then show ?thesis using one old new dels adds by simp
qed

subsection \<open>Restoring after \<^verbatim>\<open>resolv.conf\<close> was changed from outside\<close>

text \<open>
  Claim C7: when a backup exists but \<^verbatim>\<open>/etc/resolv.conf\<close> is not a symbolic link to the
  managed file, \<^verbatim>\<open>restoreResolvConf\<close> returns an error and changes no file.

  It changes no file, but it does not always return an error: the backup of a
  \<^verbatim>\<open>resolv.conf\<close> that was a link to a missing file is such a link, \<^verbatim>\<open>os.Stat\<close>
  follows it and reports that nothing is there, and the code takes that for "no backup"
  and returns \<^verbatim>\<open>nil\<close>. Here the backup is such a link and \<^verbatim>\<open>resolv.conf\<close> is a
  regular file.
\<close>

theorem restore_dangling_backup_succeeds:
  "dangling_backup backupConf = Some (Symlink ''/var/run/resolv.conf'') \<and>
   dangling_backup resolvConf = Some (File ''nameserver 192.0.2.1'') \<and>
   restoreResolvConf calm dangling_backup = (None, dangling_backup)"
  by (simp add: restoreResolvConf_def Let_def op_defs path_defs example_defs)

subsection \<open>No servers\<close>

text \<open>
  Claim C8: for every list of domains, every file system and every outside world,
  \<^verbatim>\<open>replaceResolvConf\<close> with an empty server list returns what \<^verbatim>\<open>restoreResolvConf\<close>
  returns and leaves the file system it leaves.
\<close>

theorem replace_empty_is_restore:
  "replaceResolvConf env disk [] domains = restoreResolvConf env disk"
  by (simp add: replaceResolvConf_def)

subsection \<open>The stored state\<close>

text \<open>
  Claim C9: after a \<^verbatim>\<open>Set\<close> call whose settings have exactly one local address, the
  router's stored address is that address and its stored routes are the desired routes,
  whatever failed during the call.
\<close>

theorem Set_stores_desired:
  assumes "LocalAddrs rs = [a]"
  shows "local (router (Set env disk r rs)) = a \<and>
         routes (router (Set env disk r rs)) = set (Routes rs)"
  using assms by (simp add: router_Set)

text \<open>With the interface gone and \<^verbatim>\<open>/etc\<close> not writable the call returns an error, and
  the router stores the desired address and route all the same.\<close>

theorem Set_stores_desired_witness:
  "LocalAddrs want_dns = [addr_L] \<and>
   err (Set failing Map.empty new_router want_dns) \<noteq> None \<and>
   local (router (Set failing Map.empty new_router want_dns)) = addr_L \<and>
   routes (router (Set failing Map.empty new_router want_dns)) = {route_B}"
proof -
  have one: "LocalAddrs want_dns = [addr_L]"
    by (simp add: want_dns_def)
  have failed: "err (Set failing Map.empty new_router want_dns) \<noteq> None"
    by (simp add: Set_def Let_def replaceResolvConf_def op_defs example_defs)
  show ?thesis
    using one failed Set_stores_desired [OF one, of failing Map.empty new_router]
    by (simp add: want_dns_def)
qed

subsection \<open>The address in a route command\<close>

text \<open>
  Claim C10, as amended: for every route of the diff whose prefix length is at most the
  width of its address (32 for an IPv4 address, 128 otherwise), the route-add and
  route-delete commands name the network address of the prefix (the address with its
  host bits zero); and two prefixes that denote the same network and differ in host bits
  only give the same command arguments, whatever their length.

  The claim as it was made has no condition on the length. \<^verbatim>\<open>Mask\<close> is a
  \<^verbatim>\<open>uint8\<close> that \<^verbatim>\<open>Set\<close> does not check; \<^verbatim>\<open>wgcfg\<close> documents it as "0-32 for
  IPv4, 4-128 for IPv6". For a longer one Go's \<^verbatim>\<open>net.CIDRMask\<close> is \<^verbatim>\<open>nil\<close>, so is
  the masked address, and the command names \<^verbatim>\<open><nil>\<close> (shown after the witness).
\<close>

theorem route_commands_use_network_address:
  assumes "same_network c1 c2"
  shows "routedel env a c2 = routedel env a c1 \<and>
         routeadd env a c2 = routeadd env a c1 \<and>
         (valid_prefix c1 \<longrightarrow>
            routedel env a c1 =
              [''route'', ''-q'', ''-n'', ''del'', ''-inet'',
               net_IP_String env (network_address c1) @ ''/'' @ decimal8 (Mask c1),
               ''-iface'', IP_String env (IP a)] \<and>
            routeadd env a c1 =
              [''route'', ''-q'', ''-n'', ''add'', ''-inet'',
               net_IP_String env (network_address c1) @ ''/'' @ decimal8 (Mask c1),
               ''-iface'', IP_String env (IP a)])"
proof -
  have "nip c2 = nip c1" using assms by (simp add: nip_same)
  moreover have "Mask c2 = Mask c1" using assms by (simp add: same_network_def)
  moreover have "valid_prefix c1 \<longrightarrow> nip c1 = network_address c1" by (simp add: nip_valid)
  ultimately show ?thesis by (simp add: routedel_def routeadd_def nstr_def)
qed

text \<open>\<^verbatim>\<open>10.0.1.5/24\<close> and \<^verbatim>\<open>10.0.1.77/24\<close>: both commands name \<^verbatim>\<open>10.0.1.0/24\<close>.\<close>

theorem route_commands_use_network_address_witness:
  "same_network route_A route_A' \<and> valid_prefix route_A \<and> route_A \<noteq> route_A' \<and>
   network_address route_A = IP4 0x0A000100 \<and>
   routedel calm addr_L route_A' =
     [''route'', ''-q'', ''-n'', ''del'', ''-inet'', ''10.0.1.0/24'', ''-iface'', ''100.64.0.1''] \<and>
   routeadd calm addr_L route_A' =
     [''route'', ''-q'', ''-n'', ''add'', ''-inet'', ''10.0.1.0/24'', ''-iface'', ''100.64.0.1'']"
proof -
  have s: "same_network route_A route_A'"
    by (simp add: same_network_def host_bits_def route_A_def route_A'_def Is4_def)
  have v: "valid_prefix route_A"
    by (simp add: valid_prefix_def route_A_def Is4_def)
  have n: "network_address route_A = IP4 0x0A000100"
    by (simp add: network_address_def host_bits_def route_A_def Is4_def)
  show ?thesis
    using s v n route_commands_use_network_address [OF s, of calm addr_L]
    by (simp add: route_A_def route_A'_def addr_L_def text_defs)
qed

text \<open>
  The claim without the condition fails at \<^verbatim>\<open>10.0.1.5/40\<close>: the address with its host
  bits zero (there are none) reads \<^verbatim>\<open>10.0.1.5\<close>, and the delete and the add command
  that \<^verbatim>\<open>Set\<close> issues for the route name \<^verbatim>\<open><nil>/40\<close>.
\<close>

theorem route_mask_too_long_counterexample:
  "visits_once calm_long (routes r_long) \<and>
   visits_once calm_long (set (Routes want_long)) \<and>
   net_IP_String calm_long (network_address route_long) = ''10.0.1.5'' \<and>
   issued (Set calm_long Map.empty r_long want_none) =
     [[''route'', ''-q'', ''-n'', ''del'', ''-inet'', ''<nil>/40'', ''-iface'', ''100.64.0.1'']] \<and>
   issued (Set calm_long Map.empty (r_long\<lparr>routes := {}\<rparr>) want_long) =
     [[''route'', ''-q'', ''-n'', ''add'', ''-inet'', ''<nil>/40'', ''-iface'', ''100.64.0.1'']]"
proof -
  have n: "nstr calm_long route_long = ''<nil>/40''"
    by (simp add: nstr_def nip_def IPNet_def CIDRMask_def route_long_def text_defs)
  have ip: "IP_String calm_long (IP addr_L) = ''100.64.0.1''"
    by (simp add: addr_L_def text_defs)
  have a: "net_IP_String calm_long (network_address route_long) = ''10.0.1.5''"
    by (simp add: network_address_def host_bits_def route_long_def text_defs)
  have v1: "visits_once calm_long (routes r_long)"
    by (simp add: visits_once_def calm_long_def r_long_def)
  have v2: "visits_once calm_long (set (Routes want_long))"
    by (simp add: visits_once_def calm_long_def want_long_def)
  have ro: "range_order calm_long {route_long} = [route_long]" "range_order calm_long {} = []"
    by (simp_all add: calm_long_def)
  have d: "issued (Set calm_long Map.empty r_long want_none) =
     [[''route'', ''-q'', ''-n'', ''del'', ''-inet'', ''<nil>/40'', ''-iface'', ''100.64.0.1'']]"
    by (simp add: issued_Set [of _ addr_L] local_cmds_def routedel_def n ip
          want_none_def r_long_def ro)
  have ad: "issued (Set calm_long Map.empty (r_long\<lparr>routes := {}\<rparr>) want_long) =
     [[''route'', ''-q'', ''-n'', ''add'', ''-inet'', ''<nil>/40'', ''-iface'', ''100.64.0.1'']]"
    by (simp add: issued_Set [of _ addr_L] local_cmds_def routeadd_def n ip
          want_long_def r_long_def ro)
  show ?thesis using a v1 v2 d ad by simp
qed

end
